theory Spec2Isabelle
  imports Main "HOL-Library.AList"
begin

section \<open>Values, fields, models and filter trees\<close>

text \<open>
  Python values that reach the query compiler. A list and a tuple are both \<open>PList\<close>:
  the source treats them alike (\<open>isinstance(value, (list, tuple))\<close>).
\<close>

datatype pyval = PNone | PInt int | PStr string | PList "pyval list"

text \<open>A model field: \<open>field.column\<close>, \<open>field.primary_key\<close>, \<open>field.db_type(connection)\<close>.\<close>

record db_field =
  column :: string
  primary_key :: bool
  db_type :: string

text \<open>The constraint of a where leaf: \<open>constraint.col\<close> and \<open>constraint.field\<close>.\<close>

record constraint =
  col :: string
  field :: db_field

text \<open>
  What the code reads of a parent model: \<open>parent._meta.db_table\<close>,
  \<open>parent._meta.abstract\<close> and the truth value of \<open>parent._meta.parents\<close>.
\<close>

record parent_meta =
  p_db_table :: string
  p_abstract :: bool
  p_has_parents :: bool

text \<open>
  A model class with its \<open>_meta\<close>: \<open>model_str\<close> is \<open>str(model)\<close>, \<open>parents\<close> is
  \<open>_meta.parents\<close>, \<open>parent_list\<close> is \<open>_meta.get_parent_list()\<close>, \<open>meta_ordering\<close> is
  \<open>_meta.ordering\<close>, \<open>pk_column\<close> is \<open>_meta.pk.column\<close>.
\<close>

record model =
  model_str :: string
  db_table :: string
  pk_column :: string
  meta_fields :: "db_field list"
  meta_ordering :: "string list"
  parents :: "parent_meta list"
  parent_list :: "parent_meta list"
  proxy :: bool

datatype connector = AND | OR

text \<open>
  A where node has a connector, a negated flag and children; a child is either a
  tuple \<open>(constraint, op, annotation, value)\<close> or another where node.
\<close>

datatype wherenode = WhereNode connector bool "child list"
  and child = Tuple constraint string pyval pyval | Sub wherenode

datatype error =
    NameError string
  | RuntimeError string
  | NotImplementedError string
  | AssertionError
  | TypeError

text \<open>The two fatal errors of normalization, by the message the source raises.\<close>

definition MultipleInequalityFilters :: error where
  "MultipleInequalityFilters = RuntimeError ''You can only specify one inequality filter per query''"

definition UnsupportedNegatedOperator :: "string \<Rightarrow> error" where
  "UnsupportedNegatedOperator op = RuntimeError (''Unsupported negated lookup: '' @ op)"

section \<open>SelectCommand\<close>

type_synonym pred = "string \<times> string \<times> pyval"

text \<open>
  The fields of \<open>self\<close> that \<open>__init__\<close> sets. \<open>projection\<close> is \<open>None\<close> or a nonempty
  collection of columns; its order comes from \<open>list(set(...))\<close> and is not determined,
  so it is a set here.
\<close>

record select_command =
  ordering :: "string list"
  queried_fields :: "string list"
  pk_col :: string
  cmd_model :: model
  is_count :: bool
  keys_only :: bool
  included_pks :: "pyval list"
  excluded_pks :: "pyval list"
  has_inequality_filter :: bool
  all_filters :: "pred list"
  query_can_never_return_results :: bool
  projection :: "string set option"
  self_where :: "pred list"

text \<open>
  \<open>prep\<close> stands for \<open>connection.ops.prep_lookup_value(model, value, field)\<close>, which is
  applied to each element of a list value and to any other value as a whole.
\<close>

type_synonym prep_fn = "model \<Rightarrow> pyval \<Rightarrow> db_field \<Rightarrow> pyval"

fun prep_value :: "prep_fn \<Rightarrow> model \<Rightarrow> db_field \<Rightarrow> pyval \<Rightarrow> pyval" where
  "prep_value prep m f (PList xs) = PList (map (\<lambda>x. prep m x f) xs)"
| "prep_value prep m f v = prep m v f"

text \<open>Lines 133-139: an equality filter on a projected column disables the projection.\<close>

definition check_projection :: "select_command \<Rightarrow> constraint \<Rightarrow> string \<Rightarrow> select_command" where
  "check_projection self c op =
     (case projection self of
        None \<Rightarrow> self
      | Some p \<Rightarrow>
          if col c \<in> p \<and> op \<in> {''exact'', ''in'', ''isnull''}
          then self\<lparr>projection := None\<rparr> else self)"

text \<open>Lines 142-155: a leaf under negation.\<close>

definition parse_negated ::
  "select_command \<Rightarrow> constraint \<Rightarrow> string \<Rightarrow> pyval \<Rightarrow> pred list \<Rightarrow> select_command \<times> (error + pred list)" where
  "parse_negated self c op value result =
     (let self1 = (if op \<in> {''exact'', ''in''} \<and> primary_key (field c)
                   then self\<lparr>excluded_pks := excluded_pks self @ [value]\<rparr> else self)
      in if op = ''exact'' then
           (if has_inequality_filter self1 then (self1, Inl MultipleInequalityFilters)
            else (self1\<lparr>has_inequality_filter := True\<rparr>,
                  Inr (result @ [(col c, ''gt_and_lt'', value)])))
         else (self1, Inl (UnsupportedNegatedOperator op)))"

text \<open>Lines 156-171: a leaf not under negation.\<close>

definition parse_plain ::
  "select_command \<Rightarrow> constraint \<Rightarrow> string \<Rightarrow> pyval \<Rightarrow> pred list \<Rightarrow> select_command \<times> (error + pred list)" where
  "parse_plain self c op value result =
     (let self1 =
            (if primary_key (field c) then
               (if (value = PNone \<and> op = ''exact'') \<or> op = ''isnull''
                then self\<lparr>query_can_never_return_results := True\<rparr>
                else if op \<in> {''exact'', ''in''} then
                  (case value of
                     PList vs \<Rightarrow> self\<lparr>included_pks := included_pks self @ vs\<rparr>
                   | _ \<Rightarrow> self\<lparr>included_pks := included_pks self @ [value]\<rparr>)
                else self)
             else self)
      in (self1, Inr (result @ [(col c, op, value)])))"

text \<open>The body of the loop for a tuple child (lines 127-171).\<close>

definition parse_tuple ::
  "prep_fn \<Rightarrow> select_command \<Rightarrow> constraint \<Rightarrow> string \<Rightarrow> pyval \<Rightarrow> bool \<Rightarrow> pred list
     \<Rightarrow> select_command \<times> (error + pred list)" where
  "parse_tuple prep self c op value0 negated result =
     (let value = prep_value prep (cmd_model self) (field c) value0;
          self1 = check_projection self c op
      in if negated then parse_negated self1 c op value result
         else parse_plain self1 c op value result)"

text \<open>
  \<open>parse_where_and_check_projection\<close>. The command is threaded through and returned
  also when an error is raised, since the fields of \<open>self\<close> written before the
  \<open>raise\<close> stay written. \<open>DatabaseError\<close> is not bound in the module, so the first
  \<open>raise\<close> is a \<open>NameError\<close>.
\<close>

fun parse_where_and_check_projection ::
  "prep_fn \<Rightarrow> select_command \<Rightarrow> wherenode \<Rightarrow> bool \<Rightarrow> select_command \<times> (error + pred list)"
and parse_children ::
  "prep_fn \<Rightarrow> select_command \<Rightarrow> child list \<Rightarrow> bool \<Rightarrow> pred list \<Rightarrow> select_command \<times> (error + pred list)"
where
  "parse_where_and_check_projection prep self (WhereNode conn neg chs) negated =
     (let negated' = (if neg then \<not> negated else negated)
      in if \<not> negated' \<and> conn \<noteq> AND then (self, Inl (NameError ''DatabaseError''))
         else parse_children prep self chs negated' [])"
| "parse_children prep self [] negated result = (self, Inr result)"
| "parse_children prep self (Tuple c op ann v # rest) negated result =
     (case parse_tuple prep self c op v negated result of
        (self', Inl e) \<Rightarrow> (self', Inl e)
      | (self', Inr result') \<Rightarrow> parse_children prep self' rest negated result')"
| "parse_children prep self (Sub w # rest) negated result =
     (case parse_where_and_check_projection prep self w negated of
        (self', Inl e) \<Rightarrow> (self', Inl e)
      | (self', Inr r) \<Rightarrow> parse_children prep self' rest negated (result @ r))"

subsection \<open>Construction\<close>

text \<open>
  What \<open>__init__\<close> reads of the Django query: \<open>select\<close> holds the column of each
  entry of \<open>query.select\<close>, \<open>aggregates\<close> the truth value of \<open>query.aggregates\<close>.
\<close>

record query_in =
  q_model :: model
  default_ordering :: bool
  order_by :: "string list"
  select :: "string list"
  aggregates :: bool
  q_where :: wherenode

definition get_field_from_column :: "model \<Rightarrow> string \<Rightarrow> db_field option" where
  "get_field_from_column m c = find (\<lambda>f. column f = c) (meta_fields m)"

text \<open>Lines 49-61.\<close>

definition init_queried_fields :: "query_in \<Rightarrow> bool \<Rightarrow> bool \<Rightarrow> string list" where
  "init_queried_fields query keys_only_arg all_fields =
     (let qf = (if keys_only_arg then [pk_column (q_model query)]
                else if \<not> all_fields then select query else [])
      in if qf = [] then map column (meta_fields (q_model query)) else qf)"

text \<open>
  Lines 79-96, the loop that collects \<open>projection_fields\<close>. A column with no field
  fails the \<open>assert\<close>; a text or bytes column empties the list and leaves the loop.
\<close>

fun projection_loop :: "model \<Rightarrow> string \<Rightarrow> string list \<Rightarrow> string list \<Rightarrow> error + string list" where
  "projection_loop m pk [] acc = Inr acc"
| "projection_loop m pk (f # fs) acc =
     (if f = pk then projection_loop m pk fs acc
      else case get_field_from_column m f of
             None \<Rightarrow> Inl AssertionError
           | Some fld \<Rightarrow>
               if db_type fld \<in> {''bytes'', ''text''} then Inr []
               else projection_loop m pk fs (acc @ [f]))"

text \<open>Lines 104-114: the primary key in \<open>queried_fields\<close> becomes \<open>__key__\<close>.\<close>

definition switch_pk :: "select_command \<Rightarrow> select_command" where
  "switch_pk self =
     (if pk_col self \<in> set (queried_fields self) then
        (let pk_index = length (takeWhile (\<lambda>x. x \<noteq> pk_col self) (queried_fields self));
             qf = (queried_fields self)[pk_index := ''__key__'']
         in self\<lparr>queried_fields := qf, keys_only := (length qf = 1)\<rparr>)
      else self)"

text \<open>
  \<open>SelectCommand.__init__\<close>: an exception leaves no command, so the result is the
  error alone.
\<close>

definition init :: "prep_fn \<Rightarrow> query_in \<Rightarrow> bool \<Rightarrow> bool \<Rightarrow> error + select_command" where
  "init prep query keys_only_arg all_fields =
     (let m = q_model query;
          ord = (if \<not> default_ordering query then order_by query
                 else if order_by query \<noteq> [] then order_by query else meta_ordering m);
          qf = init_queried_fields query keys_only_arg all_fields
      in case (if \<not> all_fields then projection_loop m (pk_column m) qf [] else Inr []) of
           Inl e \<Rightarrow> Inl e
         | Inr projection_fields \<Rightarrow>
             (let proj = (if projection_fields = [] then None else Some (set projection_fields));
                  self0 = \<lparr>ordering = ord, queried_fields = qf, pk_col = pk_column m,
                           cmd_model = m, is_count = aggregates query, keys_only = False,
                           included_pks = [], excluded_pks = [],
                           has_inequality_filter = False, all_filters = [],
                           query_can_never_return_results = False,
                           projection = (if parents m \<noteq> [] then None else proj),
                           self_where = []\<rparr>
              in case parse_where_and_check_projection prep self0 (q_where query) False of
                   (self1, Inl e) \<Rightarrow> Inl e
                 | (self1, Inr w) \<Rightarrow> Inr (switch_pk (self1\<lparr>self_where := w\<rparr>))))"

subsection \<open>Building the datastore query\<close>

datatype direction = ASCENDING | DESCENDING

text \<open>
  A \<open>datastore.Query\<close> is a dict from filter strings such as \<open>"name ="\<close> to values,
  with a kind, a projection and an order. The dict is an association list written
  with \<open>AList.update\<close>, so that a second write to a key replaces the first.
\<close>

record query =
  kind :: string
  q_projection :: "string set option"
  filters :: "(string \<times> pyval) list"
  order :: "(string \<times> direction) list"

datatype built_query = Query query | MultiQuery "query list" "(string \<times> direction) list"

definition OPERATORS_MAP :: "(string \<times> string option) list" where
  "OPERATORS_MAP =
     [(''exact'', Some ''=''), (''gt'', Some ''>''), (''gte'', Some ''>=''),
      (''lt'', Some ''<''), (''lte'', Some ''<=''),
      (''isnull'', None), (''in'', None), (''startswith'', None), (''range'', None),
      (''year'', None), (''gt_and_lt'', None), (''iexact'', None)]"

text \<open>\<open>OPERATORS_MAP.get(op)\<close>: \<open>None\<close> for a missing key and for a key bound to \<open>None\<close>.\<close>

definition operators_get :: "string \<Rightarrow> string option" where
  "operators_get op = (case map_of OPERATORS_MAP op of Some r \<Rightarrow> r | None \<Rightarrow> None)"

text \<open>
  The names imported from \<open>djangae.indexing\<close>, whose module is not part of the
  sources at hand, are parameters: \<open>REQUIRES_SPECIAL_INDEXES\<close> maps an operator to its
  indexer, \<open>add_special_index\<close> changes the registry of indexes (of type \<open>'i\<close>) and
  \<open>special_indexes_for_column\<close> reads it.
\<close>

record indexer =
  indexed_column_name :: "string \<Rightarrow> string"
  prep_value_for_query :: "pyval \<Rightarrow> pyval"

record 'i indexing =
  REQUIRES_SPECIAL_INDEXES :: "string \<Rightarrow> indexer option"
  add_special_index :: "'i \<Rightarrow> model \<Rightarrow> string \<Rightarrow> string \<Rightarrow> 'i"
  special_indexes_for_column :: "'i \<Rightarrow> model \<Rightarrow> string \<Rightarrow> string list"

text \<open>The message of the missing-index error (lines 215-217).\<close>

definition missing_index_message :: "model \<Rightarrow> string \<Rightarrow> string \<Rightarrow> string" where
  "missing_index_message m column_name op =
     ''There is a missing index in your djangaeidx.yaml - '' @ [CHR 0x0A, CHR 0x0A]
       @ model_str m @ '':'' @ [CHR 0x0A, CHR 0x09] @ column_name @ '': ['' @ op @ '']''"

text \<open>
  The body of the loop over \<open>self.where\<close> (lines 205-233). Its state is the registry
  of indexes, the query and \<open>combined_filters\<close>.
\<close>

definition apply_filter ::
  "'i indexing \<Rightarrow> select_command \<Rightarrow> 'i \<times> query \<times> pred list \<Rightarrow> pred
     \<Rightarrow> error + ('i \<times> query \<times> pred list)" where
  "apply_filter ix self st p =
     (case st of (idx, q, combined_filters) \<Rightarrow>
      case p of (column0, op, value) \<Rightarrow>
       (let column_name = (if column0 = pk_col self then ''__key__'' else column0)
        in case operators_get op of
             Some final_op \<Rightarrow>
               Inr (idx, q\<lparr>filters := AList.update (column_name @ '' '' @ final_op) value (filters q)\<rparr>,
                    combined_filters)
           | None \<Rightarrow>
              (case REQUIRES_SPECIAL_INDEXES ix op of
                 Some indexer \<Rightarrow>
                   (let idx' = add_special_index ix idx (cmd_model self) column_name op
                    in if op \<notin> set (special_indexes_for_column ix idx' (cmd_model self) column_name)
                       then Inl (RuntimeError (missing_index_message (cmd_model self) column_name op))
                       else Inr (idx',
                                 q\<lparr>filters := AList.update (indexed_column_name indexer column_name @ '' ='')
                                      (prep_value_for_query indexer value) (filters q)\<rparr>,
                                 combined_filters))
               | None \<Rightarrow>
                   if op = ''in'' then Inr (idx, q, combined_filters @ [(column_name, op, value)])
                   else if op = ''gt_and_lt'' then Inr (idx, q, combined_filters @ [(column_name, op, value)])
                   else if op = ''isnull'' then
                     Inr (idx, q\<lparr>filters := AList.update (column_name @ '' ='') PNone (filters q)\<rparr>,
                          combined_filters)
                   else Inl (NotImplementedError (''Unimplemented operator '' @ op)))))"

fun apply_filters ::
  "'i indexing \<Rightarrow> select_command \<Rightarrow> 'i \<times> query \<times> pred list \<Rightarrow> pred list
     \<Rightarrow> error + ('i \<times> query \<times> pred list)" where
  "apply_filters ix self st [] = Inr st"
| "apply_filters ix self st (p # ps) =
     (case apply_filter ix self st p of
        Inl e \<Rightarrow> Inl e
      | Inr st' \<Rightarrow> apply_filters ix self st' ps)"

text \<open>Lines 236-242.\<close>

definition build_ordering :: "model \<Rightarrow> string list \<Rightarrow> (string \<times> direction) list" where
  "build_ordering m ords =
     map (\<lambda>ord.
            let direction = (case ord of c # _ \<Rightarrow> if c = CHR ''-'' then DESCENDING else ASCENDING
                                       | [] \<Rightarrow> ASCENDING);
                stripped = dropWhile (\<lambda>c. c = CHR ''-'') ord
            in (if stripped = pk_column m then ''__key__'' else stripped, direction)) ords"

text \<open>\<open>d.update(other)\<close> on dicts.\<close>

definition dict_update :: "('k \<times> 'v) list \<Rightarrow> ('k \<times> 'v) list \<Rightarrow> ('k \<times> 'v) list" where
  "dict_update d other = fold (\<lambda>(k, v). AList.update k v) other d"

text \<open>
  Lines 253-255 and 259-261: a fresh query on the given table, the filters of the
  old one copied into it, and one more filter written.
\<close>

definition new_query :: "string \<Rightarrow> query \<Rightarrow> string \<Rightarrow> pyval \<Rightarrow> query" where
  "new_query table q key v =
     \<lparr>kind = table, q_projection = None,
      filters = AList.update key v (dict_update [] (filters q)), order = []\<rparr>"

text \<open>\<open>for val in value\<close>: a list gives its elements, a string its characters.\<close>

fun iter_values :: "pyval \<Rightarrow> error + pyval list" where
  "iter_values (PList vs) = Inr vs"
| "iter_values (PStr s) = Inr (map (\<lambda>c. PStr [c]) s)"
| "iter_values _ = Inl TypeError"

text \<open>One round of the loop over \<open>combined_filters\<close> (lines 248-263).\<close>

definition expand_filter :: "string \<Rightarrow> query list \<Rightarrow> pred \<Rightarrow> error + query list" where
  "expand_filter table queries p =
     (case p of (column_name, op, value) \<Rightarrow>
        if op = ''in'' then
          (if queries = [] then Inr []
           else case iter_values value of
                  Inl e \<Rightarrow> Inl e
                | Inr vals \<Rightarrow>
                    Inr (concat (map (\<lambda>q. map (\<lambda>val. new_query table q (column_name @ '' ='') val) vals)
                                     queries)))
        else if op = ''gt_and_lt'' then
          Inr (concat (map (\<lambda>q. map (\<lambda>tmp_op. new_query table q (column_name @ '' '' @ tmp_op) value)
                                     [''<'', ''>''])
                           queries))
        else Inr [])"

fun expand_filters :: "string \<Rightarrow> query list \<Rightarrow> pred list \<Rightarrow> error + query list" where
  "expand_filters table queries [] = Inr queries"
| "expand_filters table queries (p # ps) =
     (case expand_filter table queries p of
        Inl e \<Rightarrow> Inl e
      | Inr new_queries \<Rightarrow> expand_filters table new_queries ps)"

text \<open>Lines 184-192: the table of the topmost parent when there are concrete parents.\<close>

definition inheritance_root_table :: "model \<Rightarrow> string" where
  "inheritance_root_table m =
     (if filter (\<lambda>x. \<not> p_abstract x) (parents m) \<noteq> [] then
        fold (\<lambda>parent root. if \<not> p_has_parents parent then p_db_table parent else root)
             (parent_list m) (db_table m)
      else db_table m)"

text \<open>Lines 194-201: the query before any filter of \<open>self.where\<close>.\<close>

definition initial_query :: "select_command \<Rightarrow> query" where
  "initial_query self =
     (let m = cmd_model self;
          q = \<lparr>kind = inheritance_root_table m, q_projection = projection self,
               filters = [], order = []\<rparr>
      in if filter (\<lambda>x. \<not> p_abstract x) (parents m) \<noteq> [] \<and> \<not> proxy m
         then q\<lparr>filters := AList.update ''class ='' (PStr (db_table m)) (filters q)\<rparr>
         else q)"

text \<open>Lines 182-270 of \<open>execute\<close>: the value of \<open>self.query\<close>.\<close>

definition build_query :: "'i indexing \<Rightarrow> 'i \<Rightarrow> select_command \<Rightarrow> error + built_query" where
  "build_query ix idx self =
     (case apply_filters ix self (idx, initial_query self, []) (self_where self) of
        Inl e \<Rightarrow> Inl e
      | Inr (idx', q, combined_filters) \<Rightarrow>
          (let ords = build_ordering (cmd_model self) (ordering self)
           in if combined_filters \<noteq> [] then
                (case expand_filters (db_table (cmd_model self)) [q] combined_filters of
                   Inl e \<Rightarrow> Inl e
                 | Inr queries \<Rightarrow> Inr (MultiQuery queries ords))
              else Inr (Query (q\<lparr>order := ords\<rparr>))))"

subsection \<open>Fetching\<close>

text \<open>
  The store and the cache are parameters. \<open>get_uniques_from_model\<close>,
  \<open>generate_unique_key\<close> and \<open>get_entity_from_cache\<close> are used by \<open>_do_fetch\<close> and
  defined elsewhere. Every call to the store or the cache is recorded as an event.
\<close>

record 'e store =
  Run :: "built_query \<Rightarrow> 'e list"
  Count :: "built_query \<Rightarrow> nat"

record 'e caching =
  get_uniques_from_model :: "model \<Rightarrow> string list list"
  generate_unique_key :: "model \<Rightarrow> (string \<times> pyval) list \<Rightarrow> string"
  get_entity_from_cache :: "string \<Rightarrow> 'e option"

datatype event = CacheGet string | StoreRun built_query | StoreCount built_query

datatype 'e results = Entities "'e list" | CountResult nat

text \<open>\<open>_run_query\<close> with \<open>aggregate_type\<close> set from \<open>is_count\<close> (line 273).\<close>

definition run_query ::
  "'e store \<Rightarrow> select_command \<Rightarrow> built_query \<Rightarrow> event list \<Rightarrow> 'e results \<times> event list" where
  "run_query st self q evs =
     (if \<not> is_count self then (Entities (Run st q), evs @ [StoreRun q])
      else (CountResult (Count st q), evs @ [StoreCount q]))"

text \<open>
  Lines 288-303: every unique combination whose fields are all in \<open>lookup\<close> is
  looked up in the cache; the loop has no \<open>break\<close>, so the last lookup decides.
\<close>

definition cache_lookups ::
  "'e caching \<Rightarrow> select_command \<Rightarrow> 'e option \<times> event list" where
  "cache_lookups ch self =
     (let exact_filters = filter (\<lambda>x. fst (snd x) = ''='') (all_filters self);
          lookup = map_of (rev (map (\<lambda>x. (fst x, snd (snd x))) exact_filters))
      in fold (\<lambda>fs (entity_from_cache, evs).
                 if list_all (\<lambda>f. lookup f \<noteq> None) fs then
                   (let unique_key = generate_unique_key ch (cmd_model self)
                                        (map (\<lambda>f. (f, the (lookup f))) fs)
                    in (get_entity_from_cache ch unique_key, evs @ [CacheGet unique_key]))
                 else (entity_from_cache, evs))
              (get_uniques_from_model ch (cmd_model self)) (None, []))"

text \<open>\<open>_do_fetch\<close> (lines 276-308).\<close>

definition do_fetch ::
  "'e store \<Rightarrow> 'e caching \<Rightarrow> select_command \<Rightarrow> built_query \<Rightarrow> 'e results \<times> event list" where
  "do_fetch st ch self q =
     (case q of
        MultiQuery qs ords \<Rightarrow> run_query st self q []
      | Query q1 \<Rightarrow>
          (case (if all_filters self \<noteq> [] then cache_lookups ch self else (None, [])) of
             (None, evs) \<Rightarrow> run_query st self q evs
           | (Some entity_from_cache, evs) \<Rightarrow> (Entities [entity_from_cache], evs)))"

text \<open>\<open>SelectCommand.execute\<close>: \<open>self.results\<close> and the calls made on the way.\<close>

definition execute ::
  "'i indexing \<Rightarrow> 'e store \<Rightarrow> 'e caching \<Rightarrow> 'i \<Rightarrow> select_command
     \<Rightarrow> error + ('e results \<times> event list)" where
  "execute ix st ch idx self =
     (if query_can_never_return_results self then Inr (Entities [], [])
      else case build_query ix idx self of
             Inl e \<Rightarrow> Inl e
           | Inr q \<Rightarrow> Inr (do_fetch st ch self q))"

section \<open>Notions used to state the properties\<close>

text \<open>
  The tuples of a where tree, in the order in which the loop reaches them, each with
  the negation it is reached under.
\<close>

fun where_tuples :: "wherenode \<Rightarrow> bool \<Rightarrow> (bool \<times> constraint \<times> string \<times> pyval) list"
and children_tuples :: "child list \<Rightarrow> bool \<Rightarrow> (bool \<times> constraint \<times> string \<times> pyval) list"
where
  "where_tuples (WhereNode conn neg chs) negated =
     children_tuples chs (if neg then \<not> negated else negated)"
| "children_tuples [] negated = []"
| "children_tuples (Tuple c op ann v # rest) negated =
     (negated, c, op, v) # children_tuples rest negated"
| "children_tuples (Sub w # rest) negated = where_tuples w negated @ children_tuples rest negated"

text \<open>
  A tuple that asks for a null primary key: not under negation, on the primary key,
  and either \<open>exact\<close> with a prepared value of \<open>None\<close> or \<open>isnull\<close>.
\<close>

definition null_pk_lookup :: "prep_fn \<Rightarrow> model \<Rightarrow> bool \<times> constraint \<times> string \<times> pyval \<Rightarrow> bool" where
  "null_pk_lookup prep m t =
     (case t of (negated, c, op, v) \<Rightarrow>
        \<not> negated \<and> primary_key (field c) \<and>
        ((prep_value prep m (field c) v = PNone \<and> op = ''exact'') \<or> op = ''isnull''))"

text \<open>A tuple whose column is in the set \<open>p\<close> and whose operator is an equality.\<close>

definition filters_projected :: "string set \<Rightarrow> bool \<times> constraint \<times> string \<times> pyval \<Rightarrow> bool" where
  "filters_projected p t =
     (case t of (negated, c, op, v) \<Rightarrow> col c \<in> p \<and> op \<in> {''exact'', ''in'', ''isnull''})"

text \<open>
  The candidate columns of a projection: the queried columns without the primary key.
\<close>

definition candidate_columns :: "query_in \<Rightarrow> bool \<Rightarrow> bool \<Rightarrow> string list" where
  "candidate_columns query keys_only_arg all_fields =
     filter (\<lambda>f. f \<noteq> pk_column (q_model query)) (init_queried_fields query keys_only_arg all_fields)"

text \<open>A column whose field has the store type text or bytes.\<close>

definition unindexed_column :: "model \<Rightarrow> string \<Rightarrow> bool" where
  "unindexed_column m c =
     (case get_field_from_column m c of
        None \<Rightarrow> False
      | Some f \<Rightarrow> db_type f \<in> {''bytes'', ''text''})"

text \<open>
  The three conditions under which the specification drops the projection: a
  candidate column of type text or bytes, a model with parents, or a candidate column
  that an \<open>exact\<close>, \<open>in\<close> or \<open>isnull\<close> tuple filters.
\<close>

definition spec_projection_dropped :: "query_in \<Rightarrow> bool \<Rightarrow> bool \<Rightarrow> bool" where
  "spec_projection_dropped query keys_only_arg all_fields =
     (list_ex (unindexed_column (q_model query)) (candidate_columns query keys_only_arg all_fields)
      \<or> parents (q_model query) \<noteq> []
      \<or> list_ex (filters_projected (set (candidate_columns query keys_only_arg all_fields)))
                 (where_tuples (q_where query) False))"

text \<open>What a sequence of tuples leaves of a projection.\<close>

definition drop_if ::
  "string set option \<Rightarrow> (bool \<times> constraint \<times> string \<times> pyval) list \<Rightarrow> string set option" where
  "drop_if pr ts =
     (case pr of
        None \<Rightarrow> None
      | Some p \<Rightarrow> if list_ex (filters_projected p) ts then None else Some p)"

section \<open>Example inputs\<close>

text \<open>
  A model \<open>User(id, email, name, age)\<close> with primary key \<open>id\<close>, a lookup-value
  preparation that changes nothing, and queries over it.
\<close>

definition example_prep :: prep_fn where
  "example_prep m v f = v"

definition example_field :: "string \<Rightarrow> db_field" where
  "example_field c = \<lparr>column = c, primary_key = (c = ''id''), db_type = ''string''\<rparr>"

definition on_column :: "string \<Rightarrow> constraint" where
  "on_column c = \<lparr>col = c, field = example_field c\<rparr>"

definition user_model :: model where
  "user_model = \<lparr>model_str = ''User'', db_table = ''app_user'', pk_column = ''id'',
     meta_fields = map example_field [''id'', ''email'', ''name'', ''age''],
     meta_ordering = [], parents = [], parent_list = [], proxy = False\<rparr>"

definition example_query :: "string list \<Rightarrow> child list \<Rightarrow> query_in" where
  "example_query cols chs = \<lparr>q_model = user_model, default_ordering = True, order_by = [],
     select = cols, aggregates = False, q_where = WhereNode AND False chs\<rparr>"

text \<open>The command for \<open>User\<close> as \<open>__init__\<close> has it before the where tree is parsed.\<close>

definition example_self :: select_command where
  "example_self = \<lparr>ordering = [], queried_fields = [''name''], pk_col = ''id'',
     cmd_model = user_model, is_count = False, keys_only = False,
     included_pks = [], excluded_pks = [], has_inequality_filter = False, all_filters = [],
     query_can_never_return_results = False, projection = Some {''name''}, self_where = []\<rparr>"

text \<open>
  An index registry that holds (column, operator) pairs and that \<open>add_special_index\<close>
  leaves alone, as in production; \<open>iexact\<close> is the one operator with an indexer.
\<close>

definition iexact_indexer :: indexer where
  "iexact_indexer = \<lparr>indexed_column_name = (\<lambda>c. ''_idx_iexact_'' @ c),
                      prep_value_for_query = (\<lambda>v. v)\<rparr>"

definition example_indexing :: "(string \<times> string) list indexing" where
  "example_indexing =
     \<lparr>REQUIRES_SPECIAL_INDEXES = map_of [(''iexact'', iexact_indexer)],
      add_special_index = (\<lambda>idx m c op. idx),
      special_indexes_for_column = (\<lambda>idx m c. map snd (filter (\<lambda>x. fst x = c) idx))\<rparr>"

text \<open>A store that answers every query alike, and a cache that holds every key.\<close>

definition example_store :: "string store" where
  "example_store = \<lparr>Run = (\<lambda>q. [''stored'']), Count = (\<lambda>q. 1)\<rparr>"

definition example_cache :: "string caching" where
  "example_cache =
     \<lparr>get_uniques_from_model = (\<lambda>m. [[''email'']]),
      generate_unique_key = (\<lambda>m kv. model_str m @ concat (map fst kv)),
      get_entity_from_cache = (\<lambda>k. Some ''cached'')\<rparr>"

text \<open>The lookup \<open>id = None\<close> and the command that \<open>__init__\<close> builds for it.\<close>

definition null_pk_query :: query_in where
  "null_pk_query = example_query [''name''] [Tuple (on_column ''id'') ''exact'' PNone PNone]"

definition null_pk_command :: select_command where
  "null_pk_command = example_self\<lparr>query_can_never_return_results := True,
                                  self_where := [(''id'', ''exact'', PNone)]\<rparr>"

text \<open>The query \<open>age > 3\<close> selecting \<open>name\<close> and \<open>email\<close>, and its command.\<close>

definition projecting_query :: query_in where
  "projecting_query =
     example_query [''name'', ''email''] [Tuple (on_column ''age'') ''gt'' PNone (PInt 3)]"

definition projecting_command :: select_command where
  "projecting_command = example_self\<lparr>queried_fields := [''name'', ''email''],
                                     projection := Some {''name'', ''email''},
                                     self_where := [(''age'', ''gt'', PInt 3)]\<rparr>"

text \<open>
  A model \<open>Admin\<close> with the concrete parent \<open>User\<close>, the query \<open>age IN (1, 2)\<close> over
  it, its command and the queries of its expansion.
\<close>

definition user_parent :: parent_meta where
  "user_parent = \<lparr>p_db_table = ''app_user'', p_abstract = False, p_has_parents = False\<rparr>"

definition admin_model :: model where
  "admin_model = user_model\<lparr>model_str := ''Admin'', db_table := ''app_admin'',
                             parents := [user_parent], parent_list := [user_parent]\<rparr>"

definition admin_query :: query_in where
  "admin_query = (example_query [''name'']
       [Tuple (on_column ''age'') ''in'' PNone (PList [PInt 1, PInt 2])])\<lparr>q_model := admin_model\<rparr>"

definition admin_command :: select_command where
  "admin_command = example_self\<lparr>cmd_model := admin_model, projection := None,
       self_where := [(''age'', ''in'', PList [PInt 1, PInt 2])]\<rparr>"

definition admin_queries :: "query list" where
  "admin_queries =
     [\<lparr>kind = ''app_admin'', q_projection = None,
       filters = [(''class ='', PStr ''app_admin''), (''age ='', PInt 1)], order = []\<rparr>,
      \<lparr>kind = ''app_admin'', q_projection = None,
       filters = [(''class ='', PStr ''app_admin''), (''age ='', PInt 2)], order = []\<rparr>]"


text \<open>
  The lookup \<open>email = "a@b.com"\<close>, where \<open>email\<close> is the unique combination that
  \<open>example_cache\<close> declares, its command and the query it sends to the store.
\<close>

definition unique_email_query :: query_in where
  "unique_email_query =
     example_query [''name''] [Tuple (on_column ''email'') ''exact'' PNone (PStr ''a@b.com'')]"

definition unique_email_command :: select_command where
  "unique_email_command = example_self\<lparr>self_where := [(''email'', ''exact'', PStr ''a@b.com'')]\<rparr>"

definition unique_email_store_query :: built_query where
  "unique_email_store_query =
     Query \<lparr>kind = ''app_user'', q_projection = Some {''name''},
            filters = [(''email ='', PStr ''a@b.com'')], order = []\<rparr>"

lemmas example_defs = example_prep_def example_field_def on_column_def user_model_def
  example_query_def example_self_def user_parent_def admin_model_def admin_query_def admin_command_def admin_queries_def unique_email_query_def unique_email_command_def unique_email_store_query_def iexact_indexer_def example_indexing_def example_store_def example_cache_def null_pk_query_def null_pk_command_def projecting_query_def projecting_command_def

lemmas init_defs = init_def init_queried_fields_def get_field_from_column_def switch_pk_def
  parse_tuple_def parse_negated_def parse_plain_def check_projection_def Let_def

lemmas exec_defs = execute_def build_query_def initial_query_def inheritance_root_table_def
  apply_filter_def operators_get_def OPERATORS_MAP_def expand_filter_def new_query_def
  dict_update_def build_ordering_def do_fetch_def run_query_def cache_lookups_def
  missing_index_message_def

section \<open>Normalization of the where tree\<close>

lemma parse_tuple_negated:
  "snd (parse_tuple prep self c op v True result) =
     (if op \<noteq> ''exact'' then Inl (UnsupportedNegatedOperator op)
      else if has_inequality_filter self then Inl MultipleInequalityFilters
      else Inr (result @ [(col c, ''gt_and_lt'', prep_value prep (cmd_model self) (field c) v)]))"
  by (simp add: parse_tuple_def parse_negated_def check_projection_def Let_def split: option.splits)





text \<open>
  C3, as the code has it: a leaf reached under negation with an operator other than
  \<open>exact\<close> ends normalization with the unsupported-negated-lookup error, and this
  includes \<open>in\<close>; a negated \<open>exact\<close> ends it with the one-inequality error when an
  earlier negated \<open>exact\<close> has set \<open>has_inequality_filter\<close>, and otherwise is rewritten
  to \<open>gt_and_lt\<close> and the loop goes on.
\<close>

theorem negated_leaf_normalization:
  "snd (parse_children prep self (Tuple c op ann v # rest) True result) =
     (if op \<noteq> ''exact'' then Inl (UnsupportedNegatedOperator op)
      else if has_inequality_filter self then Inl MultipleInequalityFilters
      else snd (parse_children prep (fst (parse_tuple prep self c op v True result)) rest True
                  (result @ [(col c, ''gt_and_lt'', prep_value prep (cmd_model self) (field c) v)])))"
  using parse_tuple_negated[of prep self c op v result]
  by (cases "parse_tuple prep self c op v True result") (auto split: sum.splits)

theorem negated_leaf_normalization_witness:
  "snd (parse_children example_prep example_self
          [Tuple (on_column ''age'') ''exact'' PNone (PInt 5)] True []) =
     Inr [(''age'', ''gt_and_lt'', PInt 5)]"
  using negated_leaf_normalization[of example_prep example_self "on_column ''age''" "''exact''"
          PNone "PInt 5" "[]" "[]"]
  by (simp add: example_defs)

text \<open>
  The claim C3 as stated fails: the exclusion \<open>NOT (age IN (1, 2))\<close> does not
  normalize, the constructor raises the unsupported-negated-lookup error.
\<close>

theorem negated_membership_rejected:
  "init example_prep
     (example_query [''name'']
        [Sub (WhereNode AND True [Tuple (on_column ''age'') ''in'' PNone (PList [PInt 1, PInt 2])])])
     False False
   = Inl (UnsupportedNegatedOperator ''in'')"
  by (simp add: example_defs init_defs)

text \<open>
  C10: a negated \<open>in\<close> on the primary key appends the prepared value list to
  \<open>excluded_pks\<close> and then raises the unsupported-negated-lookup error; the appended
  value is in the command that the failed normalization leaves behind.
\<close>

theorem negated_pk_membership_mutates_excluded_pks:
  "primary_key (field c) \<Longrightarrow>
   snd (parse_where_and_check_projection prep self
          (WhereNode conn True (Tuple c ''in'' ann v # rest)) False)
     = Inl (UnsupportedNegatedOperator ''in'') \<and>
   excluded_pks (fst (parse_where_and_check_projection prep self
          (WhereNode conn True (Tuple c ''in'' ann v # rest)) False))
     = excluded_pks self @ [prep_value prep (cmd_model self) (field c) v]"
  by (simp add: parse_tuple_def parse_negated_def check_projection_def Let_def
      split: option.splits)

theorem negated_pk_membership_mutates_excluded_pks_witness:
  "primary_key (field (on_column ''id'')) \<and>
   snd (parse_where_and_check_projection example_prep example_self
          (WhereNode AND True [Tuple (on_column ''id'') ''in'' PNone (PList [PInt 1, PInt 2])]) False)
     = Inl (UnsupportedNegatedOperator ''in'') \<and>
   excluded_pks (fst (parse_where_and_check_projection example_prep example_self
          (WhereNode AND True [Tuple (on_column ''id'') ''in'' PNone (PList [PInt 1, PInt 2])]) False))
     = [PList [PInt 1, PInt 2]]"
  using negated_pk_membership_mutates_excluded_pks[of "on_column ''id''" example_prep example_self
          AND PNone "PList [PInt 1, PInt 2]" "[]"]
  by (simp add: example_defs)




section \<open>What normalization leaves in the command\<close>

lemma parse_tuple_model: "cmd_model (fst (parse_tuple prep self c op v negated result)) = cmd_model self"
  by (simp add: parse_tuple_def parse_negated_def parse_plain_def check_projection_def Let_def
      split: option.splits pyval.splits)

lemma parse_tuple_never:
  "parse_tuple prep self c op v negated result = (self', Inr r) \<Longrightarrow>
   query_can_never_return_results self' =
     (query_can_never_return_results self \<or> null_pk_lookup prep (cmd_model self) (negated, c, op, v))"
  by (auto simp: parse_tuple_def parse_negated_def parse_plain_def check_projection_def Let_def
      null_pk_lookup_def split: option.splits pyval.splits if_splits)

lemma parse_tuple_projection:
  "projection (fst (parse_tuple prep self c op v negated result)) =
     (case projection self of None \<Rightarrow> None
      | Some p \<Rightarrow> if filters_projected p (negated, c, op, v) then None else Some p)"
  by (auto simp: parse_tuple_def parse_negated_def parse_plain_def check_projection_def Let_def
      filters_projected_def split: option.splits pyval.splits if_splits)

lemma parse_tuple_all_filters:
  "all_filters (fst (parse_tuple prep self c op v negated result)) = all_filters self"
  by (simp add: parse_tuple_def parse_negated_def parse_plain_def check_projection_def Let_def
      split: option.splits pyval.splits)

lemma parse_model:
  "cmd_model (fst (parse_where_and_check_projection prep self w negated)) = cmd_model self"
  "cmd_model (fst (parse_children prep self chs negated result)) = cmd_model self"
proof (induction prep self w negated and prep self chs negated result
       rule: parse_where_and_check_projection_parse_children.induct)
  case (1 prep self conn neg chs negated)
  then show ?case by (simp add: Let_def)
next
  case (2 prep self negated result)
  then show ?case by simp
next
  case (3 prep self c op ann v rest negated result)
  then show ?case
    using parse_tuple_model[of prep self c op v negated result]
    by (cases "parse_tuple prep self c op v negated result") (auto split: sum.splits)
next
  case (4 prep self w rest negated result)
  then show ?case
    by (cases "parse_where_and_check_projection prep self w negated") (auto split: sum.splits)
qed

lemma parse_all_filters:
  "all_filters (fst (parse_where_and_check_projection prep self w negated)) = all_filters self"
  "all_filters (fst (parse_children prep self chs negated result)) = all_filters self"
proof (induction prep self w negated and prep self chs negated result
       rule: parse_where_and_check_projection_parse_children.induct)
  case (1 prep self conn neg chs negated)
  then show ?case by (simp add: Let_def)
next
  case (2 prep self negated result)
  then show ?case by simp
next
  case (3 prep self c op ann v rest negated result)
  then show ?case
    using parse_tuple_all_filters[of prep self c op v negated result]
    by (cases "parse_tuple prep self c op v negated result") (auto split: sum.splits)
next
  case (4 prep self w rest negated result)
  then show ?case
    by (cases "parse_where_and_check_projection prep self w negated") (auto split: sum.splits)
qed

lemma parse_never:
  "parse_where_and_check_projection prep self w negated = (self', Inr r) \<Longrightarrow>
   query_can_never_return_results self' =
     (query_can_never_return_results self \<or>
      list_ex (null_pk_lookup prep (cmd_model self)) (where_tuples w negated))"
  "parse_children prep self chs negated result = (self', Inr r) \<Longrightarrow>
   query_can_never_return_results self' =
     (query_can_never_return_results self \<or>
      list_ex (null_pk_lookup prep (cmd_model self)) (children_tuples chs negated))"
proof (induction prep self w negated and prep self chs negated result arbitrary: self' r and self' r
       rule: parse_where_and_check_projection_parse_children.induct)
  case (1 prep self conn neg chs negated)
  then show ?case by (auto simp: Let_def split: if_splits)
next
  case (2 prep self negated result)
  then show ?case by simp
next
  case (3 prep self c op ann v rest negated result)
  obtain s1 o1 where pt: "parse_tuple prep self c op v negated result = (s1, o1)"
    by (cases "parse_tuple prep self c op v negated result")
  with 3(2) obtain r1 where o1: "o1 = Inr r1" by (cases o1) auto
  have m: "cmd_model s1 = cmd_model self"
    using parse_tuple_model[of prep self c op v negated result] pt by simp
  from 3(2) pt o1 have rest: "parse_children prep s1 rest negated r1 = (self', Inr r)" by simp
  from 3(1)[OF pt[symmetric] o1 rest] parse_tuple_never[OF pt[unfolded o1]] m
  show ?case by auto
next
  case (4 prep self w rest negated result)
  obtain s1 o1 where pw: "parse_where_and_check_projection prep self w negated = (s1, o1)"
    by (cases "parse_where_and_check_projection prep self w negated")
  with 4(3) obtain r1 where o1: "o1 = Inr r1" by (cases o1) auto
  have m: "cmd_model s1 = cmd_model self"
    using parse_model(1)[of prep self w negated] pw by simp
  from 4(3) pw o1 have rest: "parse_children prep s1 rest negated (result @ r1) = (self', Inr r)" by simp
  from 4(1)[OF pw[unfolded o1]] 4(2)[OF pw[symmetric] o1 rest] m
  show ?case by auto
qed

lemma drop_if_append: "drop_if (drop_if pr xs) ys = drop_if pr (xs @ ys)"
  by (auto simp: drop_if_def split: option.splits)

lemma drop_if_Cons:
  "drop_if (case pr of None \<Rightarrow> None | Some p \<Rightarrow> if filters_projected p t then None else Some p) ys
     = drop_if pr (t # ys)"
  by (auto simp: drop_if_def split: option.splits)

lemma parse_projection:
  "parse_where_and_check_projection prep self w negated = (self', Inr r) \<Longrightarrow>
   projection self' = drop_if (projection self) (where_tuples w negated)"
  "parse_children prep self chs negated result = (self', Inr r) \<Longrightarrow>
   projection self' = drop_if (projection self) (children_tuples chs negated)"
proof (induction prep self w negated and prep self chs negated result arbitrary: self' r and self' r
       rule: parse_where_and_check_projection_parse_children.induct)
  case (1 prep self conn neg chs negated)
  then show ?case by (auto simp: Let_def split: if_splits)
next
  case (2 prep self negated result)
  then show ?case by (simp add: drop_if_def split: option.splits)
next
  case (3 prep self c op ann v rest negated result)
  obtain s1 o1 where pt: "parse_tuple prep self c op v negated result = (s1, o1)"
    by (cases "parse_tuple prep self c op v negated result")
  with 3(2) obtain r1 where o1: "o1 = Inr r1" by (cases o1) auto
  from 3(2) pt o1 have rest: "parse_children prep s1 rest negated r1 = (self', Inr r)" by simp
  have p1: "projection s1 = (case projection self of None \<Rightarrow> None
      | Some p \<Rightarrow> if filters_projected p (negated, c, op, v) then None else Some p)"
    using parse_tuple_projection[of prep self c op v negated result] pt by simp
  from 3(1)[OF pt[symmetric] o1 rest] show ?case
    by (simp add: p1 drop_if_Cons)
next
  case (4 prep self w rest negated result)
  obtain s1 o1 where pw: "parse_where_and_check_projection prep self w negated = (s1, o1)"
    by (cases "parse_where_and_check_projection prep self w negated")
  with 4(3) obtain r1 where o1: "o1 = Inr r1" by (cases o1) auto
  from 4(3) pw o1 have rest: "parse_children prep s1 rest negated (result @ r1) = (self', Inr r)" by simp
  from 4(1)[OF pw[unfolded o1]] 4(2)[OF pw[symmetric] o1 rest]
  show ?case by (simp add: drop_if_append)
qed

lemma projection_loop_result:
  "projection_loop m pk fs acc = Inr r \<Longrightarrow>
   r = (if list_ex (unindexed_column m) (filter (\<lambda>f. f \<noteq> pk) fs) then []
        else acc @ filter (\<lambda>f. f \<noteq> pk) fs)"
proof (induction fs arbitrary: acc)
  case Nil
  then show ?case by simp
next
  case (Cons f fs)
  show ?case
  proof (cases "f = pk")
    case True
    with Cons.prems have "projection_loop m pk fs acc = Inr r" by simp
    from Cons.IH[OF this] True show ?thesis by simp
  next
    case False
    with Cons.prems obtain fld where fld: "get_field_from_column m f = Some fld"
      by (cases "get_field_from_column m f") auto
    show ?thesis
    proof (cases "db_type fld \<in> {''bytes'', ''text''}")
      case True
      with False fld Cons.prems show ?thesis by (auto simp: unindexed_column_def)
    next
      case nt: False
      with False fld Cons.prems have "projection_loop m pk fs (acc @ [f]) = Inr r" by auto
      from Cons.IH[OF this] nt False fld show ?thesis by (auto simp: unindexed_column_def)
    qed
  qed
qed

lemma switch_pk_fields:
  "projection (switch_pk s) = projection s"
  "query_can_never_return_results (switch_pk s) = query_can_never_return_results s"
  "all_filters (switch_pk s) = all_filters s"
  by (simp_all add: switch_pk_def Let_def)


text \<open>
  C6: when a command is constructed for a query whose where tree holds, not under
  negation, an \<open>exact\<close> lookup of the primary key with a null value or an \<open>isnull\<close> on
  the primary key, the command is flagged \<open>query_can_never_return_results\<close> and
  \<open>execute\<close> returns the empty result with no call to the cache or the store.
\<close>

theorem null_pk_lookup_short_circuits:
  assumes i: "init prep query keys_only_arg all_fields = Inr self"
    and n: "list_ex (null_pk_lookup prep (q_model query)) (where_tuples (q_where query) False)"
  shows "query_can_never_return_results self \<and> execute ix st ch idx self = Inr (Entities [], [])"
proof -
  from i obtain self0 self1 w where
    p: "parse_where_and_check_projection prep self0 (q_where query) False = (self1, Inr w)"
    and m: "cmd_model self0 = q_model query"
    and s: "self = switch_pk (self1\<lparr>self_where := w\<rparr>)"
    by (auto simp: init_def Let_def split: sum.splits prod.splits if_splits)
  from parse_never(1)[OF p] n m have "query_can_never_return_results self1" by simp
  with s have "query_can_never_return_results self" by (simp add: switch_pk_fields)
  then show ?thesis by (simp add: execute_def)
qed


theorem null_pk_lookup_short_circuits_witness:
  "init example_prep null_pk_query False False = Inr null_pk_command \<and>
   list_ex (null_pk_lookup example_prep (q_model null_pk_query))
           (where_tuples (q_where null_pk_query) False) \<and>
   query_can_never_return_results null_pk_command \<and>
   execute example_indexing example_store example_cache [] null_pk_command = Inr (Entities [], [])"
proof -
  have i: "init example_prep null_pk_query False False = Inr null_pk_command"
    by (simp add: example_defs init_defs)
  have n: "list_ex (null_pk_lookup example_prep (q_model null_pk_query))
             (where_tuples (q_where null_pk_query) False)"
    by (simp add: example_defs null_pk_lookup_def)
  from null_pk_lookup_short_circuits[OF i n, of example_indexing example_store example_cache "[]"] i n
  show ?thesis by simp
qed

text \<open>
  C7, as the code has it: the projection of a constructed command is \<open>None\<close> exactly
  when all fields were asked for, or there is no candidate column, or one of the three
  conditions of the specification holds (a tuple under negation counts as well);
  otherwise it is the set of the candidate columns. So a query without the tuples that
  filter a candidate column projects exactly the candidate columns.
\<close>

theorem projection_characterised:
  assumes i: "init prep query keys_only_arg all_fields = Inr self"
  shows "projection self =
     (if all_fields \<or> candidate_columns query keys_only_arg all_fields = []
         \<or> spec_projection_dropped query keys_only_arg all_fields
      then None else Some (set (candidate_columns query keys_only_arg all_fields)))"
proof -
  let ?m = "q_model query"
  let ?cands = "candidate_columns query keys_only_arg all_fields"
  from i obtain pf self0 self1 w where
    pf: "(if \<not> all_fields then projection_loop ?m (pk_column ?m)
            (init_queried_fields query keys_only_arg all_fields) [] else Inr []) = Inr pf"
    and p: "parse_where_and_check_projection prep self0 (q_where query) False = (self1, Inr w)"
    and p0: "projection self0 = (if parents ?m \<noteq> [] then None
                 else if pf = [] then None else Some (set pf))"
    and s: "self = switch_pk (self1\<lparr>self_where := w\<rparr>)"
    by (auto simp: init_def Let_def split: sum.splits prod.splits if_splits)
  have pfv: "pf = (if all_fields \<or> list_ex (unindexed_column ?m) ?cands then [] else ?cands)"
  proof (cases all_fields)
    case True
    with pf show ?thesis by simp
  next
    case False
    with pf have "projection_loop ?m (pk_column ?m)
            (init_queried_fields query keys_only_arg all_fields) [] = Inr pf" by simp
    from projection_loop_result[OF this] False show ?thesis
      by (simp add: candidate_columns_def)
  qed
  have "projection self = drop_if (projection self0) (where_tuples (q_where query) False)"
    using parse_projection(1)[OF p] s by (simp add: switch_pk_fields)
  then show ?thesis
    by (auto simp: p0 pfv drop_if_def spec_projection_dropped_def)
qed



theorem projection_characterised_witness:
  "init example_prep projecting_query False False = Inr projecting_command \<and>
   \<not> spec_projection_dropped projecting_query False False \<and>
   projection projecting_command = Some (set (candidate_columns projecting_query False False))"
proof -
  have i: "init example_prep projecting_query False False = Inr projecting_command"
    by (simp add: example_defs init_defs)
  have d: "\<not> spec_projection_dropped projecting_query False False"
    by (simp add: example_defs init_defs spec_projection_dropped_def candidate_columns_def
        unindexed_column_def filters_projected_def)
  have c: "candidate_columns projecting_query False False = [''name'', ''email'']"
    by (simp add: example_defs init_defs candidate_columns_def)
  from projection_characterised[OF i] i d c show ?thesis by simp
qed

text \<open>
  The claim C7 as stated fails: with all fields asked for (as \<open>UpdateCommand\<close> does)
  none of the three conditions holds for \<open>User\<close>, and yet there is no projection.
\<close>

theorem all_fields_never_projects:
  "map_sum id projection (init example_prep (example_query [''name''] []) False True) = Inr None \<and>
   \<not> spec_projection_dropped (example_query [''name''] []) False True"
  by (simp add: example_defs init_defs spec_projection_dropped_def candidate_columns_def
      unindexed_column_def)

section \<open>Building and running the query\<close>

lemma expand_filter_kind:
  "expand_filter table qs p = Inr qs' \<Longrightarrow> list_all (\<lambda>q. kind q = table) qs'"
  by (cases p) (auto simp: expand_filter_def new_query_def list_all_iff split: if_splits sum.splits)

lemma expand_filters_kind:
  "ps \<noteq> [] \<Longrightarrow> expand_filters table qs ps = Inr qs' \<Longrightarrow> list_all (\<lambda>q. kind q = table) qs'"
proof (induction ps arbitrary: qs)
  case Nil
  then show ?case by simp
next
  case (Cons p ps)
  from Cons.prems(2) obtain qs1 where 1: "expand_filter table qs p = Inr qs1"
    and 2: "expand_filters table qs1 ps = Inr qs'"
    by (auto split: sum.splits)
  show ?case
  proof (cases "ps = []")
    case True
    with 1 2 show ?thesis by (auto dest: expand_filter_kind)
  next
    case False
    from Cons.IH[OF False 2] show ?thesis .
  qed
qed


text \<open>
  C9: when \<open>execute\<close> builds a \<open>MultiQuery\<close>, every query in it has the table of the
  model itself as its kind, also when the model has concrete parents and the query
  before expansion was built on the table of the inheritance root.
\<close>

theorem expanded_queries_use_model_table:
  assumes "build_query ix idx self = Inr (MultiQuery qs ords)"
  shows "\<forall>q\<in>set qs. kind q = db_table (cmd_model self)"
proof -
  from assms obtain idx' q cf where cf: "cf \<noteq> []"
    and e: "expand_filters (db_table (cmd_model self)) [q] cf = Inr qs"
    by (auto simp: build_query_def Let_def split: sum.splits prod.splits if_splits)
  from expand_filters_kind[OF cf e] show ?thesis by (simp add: list_all_iff)
qed

theorem expanded_queries_use_model_table_witness:
  "init example_prep admin_query False False = Inr admin_command \<and>
   kind (initial_query admin_command) = ''app_user'' \<and>
   build_query example_indexing [] admin_command = Inr (MultiQuery admin_queries []) \<and>
   list_all (\<lambda>q. kind q = ''app_admin'') admin_queries"
proof -
  have b: "build_query example_indexing [] admin_command = Inr (MultiQuery admin_queries [])"
    by (simp add: example_defs exec_defs)
  have i: "init example_prep admin_query False False = Inr admin_command"
    by (simp add: example_defs init_defs)
  have k: "kind (initial_query admin_command) = ''app_user''"
    by (simp add: example_defs exec_defs)
  from expanded_queries_use_model_table[OF b] have "list_all (\<lambda>q. kind q = ''app_admin'') admin_queries"
    by (simp add: list_all_iff example_defs)
  with b i k show ?thesis by simp
qed





lemma init_all_filters:
  assumes "init prep query keys_only_arg all_fields = Inr self"
  shows "all_filters self = []"
proof -
  from assms obtain self0 self1 w where
    p: "parse_where_and_check_projection prep self0 (q_where query) False = (self1, Inr w)"
    and a: "all_filters self0 = []"
    and s: "self = switch_pk (self1\<lparr>self_where := w\<rparr>)"
    by (auto simp: init_def Let_def split: sum.splits prod.splits if_splits)
  from parse_all_filters(1)[of prep self0 "q_where query" False] p a
  have "all_filters self1 = []" by simp
  with s show ?thesis by (simp add: switch_pk_fields)
qed

lemma do_fetch_without_filters:
  "all_filters self = [] \<Longrightarrow> do_fetch st ch self q = run_query st self q []"
  by (cases q) (simp_all add: do_fetch_def)

lemma constructed_command_skips_cache:
  assumes "init prep query keys_only_arg all_fields = Inr self"
    and "build_query ix idx self = Inr q"
    and "\<not> query_can_never_return_results self"
  shows "execute ix st ch idx self = Inr (run_query st self q [])"
  using assms init_all_filters[OF assms(1)]
  by (simp add: execute_def do_fetch_without_filters)

text \<open>
  C1 does not hold of the code: \<open>all_filters\<close> is empty in every constructed command,
  so \<open>_do_fetch\<close> never reaches the cache. For the lookup \<open>email = "a@b.com"\<close> on the
  unique column \<open>email\<close>, with the entity in the cache, \<open>execute\<close> makes no cache
  lookup and one store call, and returns what the store returns.
\<close>

theorem unique_lookup_bypasses_cache:
  "init example_prep unique_email_query False False = Inr unique_email_command \<and>
   get_uniques_from_model example_cache user_model = [[''email'']] \<and>
   get_entity_from_cache example_cache (generate_unique_key example_cache user_model [(''email'', PStr ''a@b.com'')])
     = Some ''cached'' \<and>
   execute example_indexing example_store example_cache [] unique_email_command
     = Inr (Entities [''stored''], [StoreRun unique_email_store_query])"
  by (simp add: example_defs init_defs exec_defs)

end
